theory Spec2Isabelle
  imports Complex_Main "HOL-Library.AList"
begin

section \<open>The Node of SuperflexPy (superflexpy/framework/node.py)\<close>

text \<open>
  A Node owns a list of Units and a parallel list of weights. It sums the outputs of
  its Units according to the weights, prefixes the names of their parameters and
  states with its own id, and resolves addressed look-ups into its Units.

  The values of fluxes and weights are modelled by real numbers: one number stands
  for the value of a flux (the rounding of floating-point arithmetic is not
  modelled). Python exceptions are values of the type \<open>error\<close>, and every function
  that can raise returns \<open>error + 'a\<close>, with \<open>Inl\<close> for the exception.
\<close>

subsection \<open>Values, errors and weights\<close>

datatype error =
    AttributeError string
  | IndexError
  | TypeError
  | KeyError string
  | UnboundLocalError
  | UnitError string

datatype pyval = PNone | PFloat real | PInt int | PStr string

type_synonym kwargs = "(string \<times> pyval) list"

text \<open>
  What \<open>getattr\<close> finds on a Unit: a plain value, or a callable. A callable carries
  the text that \<open>'{}'.format\<close> prints for it and the function it runs on the keyword
  arguments.
\<close>

datatype member = Data pyval | Method string "kwargs \<Rightarrow> error + pyval"

text \<open>
  One entry of the list \<open>weights\<close>: a Python float, a Python int, or a list whose
  entries are numbers or \<open>None\<close>.
\<close>

datatype weight = WFloat real | WInt int | WMask "real option list"

fun is_float :: "weight \<Rightarrow> bool" where
  "is_float (WFloat x) = True"
| "is_float (WInt k) = False"
| "is_float (WMask ms) = False"

type_synonym params = "(string \<times> real) list"

subsection \<open>Units\<close>

text \<open>
  The class Unit is not part of the source file. A Node uses a Unit through
  \<open>set_input\<close>, \<open>get_output\<close>, \<open>get_internal\<close>, \<open>call_internal\<close>,
  \<open>add_prefix_parameters\<close>, \<open>add_prefix_states\<close>, \<open>copy\<close>, \<open>deepcopy\<close>, \<open>getattr\<close>
  and the field \<open>id\<close>. A Unit is a record (named \<open>hru\<close>, as the source names its
  loop variable): the dictionary of its parameters lives in a store and the record
  holds its address, so that two Units can share it. What the Unit computes is left
  open: \<open>solver\<close>, \<open>u_get_internal\<close> and \<open>u_call_internal\<close> are arbitrary functions.
\<close>

record hru =
  uid :: string
  pars :: nat
  states :: params
  u_input :: "real list option"
  solver :: "params \<Rightarrow> params \<Rightarrow> real list option \<Rightarrow> bool \<Rightarrow> error + real list"
  members :: "(string \<times> member) list"
  u_get_internal :: "string \<Rightarrow> string \<Rightarrow> error + member"
  u_call_internal :: "string \<Rightarrow> string \<Rightarrow> kwargs \<Rightarrow> error + pyval"

record store =
  heap :: "nat \<Rightarrow> params"
  next_free :: nat

definition add_prefix :: "string \<Rightarrow> params \<Rightarrow> params" where
  "add_prefix prefix ps = map (\<lambda>(k, v). (prefix @ ''_'' @ k, v)) ps"

text \<open>
  Modelled from the spec: \<open>Unit.__copy__\<close> is missing from the source. The spec says
  that with shared parameters a Unit is aliased, so that the mutation of a parameter
  propagates, and that states are never shared between Nodes: the copy keeps the
  address of the parameter dictionary and has its states by value.
\<close>

definition unit_copy :: "hru \<Rightarrow> hru" where
  "unit_copy h = h"

text \<open>
  Modelled from the spec: \<open>Unit.__deepcopy__\<close> is missing from the source. The spec
  says that the duplicate is deep and exclusive: the parameter dictionary is copied
  to a fresh address.
\<close>

definition unit_deepcopy :: "store \<Rightarrow> hru \<Rightarrow> hru \<times> store" where
  "unit_deepcopy st h =
     (h\<lparr>pars := next_free st\<rparr>,
      st\<lparr>heap := (heap st)(next_free st := heap st (pars h)),
         next_free := Suc (next_free st)\<rparr>)"

text \<open>
  Modelled from the spec: \<open>Unit.add_prefix_parameters\<close> is missing from the source.
  The spec says that every parameter name gains the prefix followed by an underscore.
\<close>

definition unit_add_prefix_parameters :: "string \<Rightarrow> hru \<Rightarrow> store \<Rightarrow> store" where
  "unit_add_prefix_parameters prefix h st =
     st\<lparr>heap := (heap st)(pars h := add_prefix prefix (heap st (pars h)))\<rparr>"

text \<open>
  Modelled from the spec: \<open>Unit.add_prefix_states\<close> is missing from the source. The
  spec says that the state names of a Unit begin with the prefix and an underscore
  afterwards.
\<close>

definition unit_add_prefix_states :: "string \<Rightarrow> hru \<Rightarrow> hru" where
  "unit_add_prefix_states prefix h = h\<lparr>states := add_prefix prefix (states h)\<rparr>"

text \<open>
  Modelled from the spec: \<open>Unit.set_input\<close> and \<open>Unit.get_output\<close> are missing from
  the source. The first stores the input; the second returns the sequence of output
  fluxes that the Unit computes from its parameters, its states and its input.
\<close>

definition unit_set_input :: "real list \<Rightarrow> hru \<Rightarrow> hru" where
  "unit_set_input inp h = h\<lparr>u_input := Some inp\<rparr>"

definition unit_get_output :: "store \<Rightarrow> hru \<Rightarrow> bool \<Rightarrow> error + real list" where
  "unit_get_output st h solve = solver h (heap st (pars h)) (states h) (u_input h) solve"

text \<open>
  Modelled from the spec: reading and writing a parameter of a Unit (missing from
  the source) reads and writes the dictionary at the address of the Unit.
\<close>

definition unit_get_parameters :: "store \<Rightarrow> hru \<Rightarrow> params" where
  "unit_get_parameters st h = heap st (pars h)"

definition unit_set_parameter :: "string \<Rightarrow> real \<Rightarrow> hru \<Rightarrow> store \<Rightarrow> store" where
  "unit_set_parameter k v h st =
     st\<lparr>heap := (heap st)(pars h := AList.update k v (heap st (pars h)))\<rparr>"

text \<open>\<open>getattr(unit, name)\<close>: \<open>None\<close> stands for the AttributeError of Python.\<close>

definition unit_getattr :: "hru \<Rightarrow> string \<Rightarrow> member option" where
  "unit_getattr h name = map_of (members h) name"

subsection \<open>The Node\<close>

record node =
  nid :: string
  error_message :: string
  content :: "hru list"
  area :: real
  content_pointer :: "string \<rightharpoonup> nat"
  weights :: "weight list"
  input :: "real list option"

text \<open>\<open>add_prefix_parameters\<close> and \<open>add_prefix_states\<close> loop over every Unit of \<open>_content\<close>.\<close>

definition prefix_parameters_content :: "string \<Rightarrow> hru list \<Rightarrow> store \<Rightarrow> store" where
  "prefix_parameters_content prefix hs st = fold (unit_add_prefix_parameters prefix) hs st"

definition add_prefix_parameters :: "node \<Rightarrow> string \<Rightarrow> store \<Rightarrow> store" where
  "add_prefix_parameters n prefix st = prefix_parameters_content prefix (content n) st"

definition add_prefix_states :: "node \<Rightarrow> string \<Rightarrow> node" where
  "add_prefix_states n prefix = n\<lparr>content := map (unit_add_prefix_states prefix) (content n)\<rparr>"

text \<open>
  The loop of \<open>__init__\<close> over \<open>units\<close>: the Units appended so far and the store are the
  state of the loop. With exclusive parameters, \<open>self.add_prefix_parameters(id)\<close> is
  called inside the loop, after each append.
\<close>

fun init_content :: "bool \<Rightarrow> string \<Rightarrow> hru list \<Rightarrow> hru list \<Rightarrow> store \<Rightarrow> hru list \<times> store" where
  "init_content shared_parameters i [] c st = (c, st)"
| "init_content shared_parameters i (h # hs) c st =
     (if shared_parameters then init_content shared_parameters i hs (c @ [unit_copy h]) st
      else (case unit_deepcopy st h of (h', st') \<Rightarrow>
              init_content shared_parameters i hs (c @ [h'])
                (prefix_parameters_content i (c @ [h']) st')))"

text \<open>\<open>{hru.id: i for i, hru in enumerate(self._content)}\<close>: a later Unit overwrites an earlier one of the same id.\<close>

fun make_pointer :: "nat \<Rightarrow> hru list \<Rightarrow> (string \<rightharpoonup> nat) \<Rightarrow> (string \<rightharpoonup> nat)" where
  "make_pointer i [] m = m"
| "make_pointer i (h # hs) m = make_pointer (Suc i) hs (m(uid h \<mapsto> i))"

definition make_error_message :: "string \<Rightarrow> string" where
  "make_error_message i = (''module : superflexPy, Node : '' @ i @ '','') @ '' Error message : ''"

definition Node_init :: "store \<Rightarrow> hru list \<Rightarrow> weight list \<Rightarrow> real \<Rightarrow> string \<Rightarrow> bool \<Rightarrow> node \<times> store" where
  "Node_init st units ws a i shared_parameters =
     (case init_content shared_parameters i units [] st of (c, st') \<Rightarrow>
        (add_prefix_states
           \<lparr>nid = i, error_message = make_error_message i, content = c, area = a,
            content_pointer = make_pointer 0 c Map.empty, weights = ws, input = None\<rparr> i,
         st'))"

definition set_input :: "node \<Rightarrow> real list \<Rightarrow> node" where
  "set_input n inp = n\<lparr>input := Some inp\<rparr>"

definition internal_routing :: "node \<Rightarrow> real list \<Rightarrow> real list" where
  "internal_routing n flux = flux"

definition external_routing :: "node \<Rightarrow> real list \<Rightarrow> real list" where
  "external_routing n flux = flux"

subsection \<open>get_output\<close>

text \<open>
  The first loop of \<open>get_output\<close>: every Unit receives a copy of the input of the Node.
  Reading \<open>self.input\<close> before \<open>set_input\<close> was called raises AttributeError, when there
  is a Unit to give it to; the error carries the name of the missing attribute.
\<close>

definition set_inputs :: "node \<Rightarrow> error + hru list" where
  "set_inputs n =
     (case content n of [] \<Rightarrow> Inr []
      | h # hs \<Rightarrow>
         (case input n of
            None \<Rightarrow> Inl (AttributeError ''input'')
          | Some inp \<Rightarrow> Inr (map (unit_set_input inp) (content n))))"

text \<open>\<open>o * w\<close> for a flux and a weight: a number times a list is a TypeError.\<close>

fun mul_weight :: "real \<Rightarrow> weight \<Rightarrow> error + real" where
  "mul_weight x (WFloat w) = Inr (x * w)"
| "mul_weight x (WInt k) = Inr (x * of_int k)"
| "mul_weight x (WMask ms) = Inl TypeError"

text \<open>\<open>[o * w for o in loc_out]\<close>\<close>

fun scale_all :: "real list \<Rightarrow> weight \<Rightarrow> error + real list" where
  "scale_all [] w = Inr []"
| "scale_all (x # xs) w =
     (case mul_weight x w of Inl e \<Rightarrow> Inl e
      | Inr y \<Rightarrow> (case scale_all xs w of Inl e \<Rightarrow> Inl e | Inr ys \<Rightarrow> Inr (y # ys)))"

text \<open>
  \<open>for j in range(len(output)): output[j] += loc_out[j] * w\<close>: \<open>j\<close> is the position and
  the third argument counts the positions that remain.
\<close>

fun uniform_add :: "real list \<Rightarrow> weight \<Rightarrow> nat \<Rightarrow> nat \<Rightarrow> real list \<Rightarrow> error + real list" where
  "uniform_add loc_out w j 0 output = Inr output"
| "uniform_add loc_out w j (Suc k) output =
     (if j < length loc_out then
        (case mul_weight (loc_out ! j) w of Inl e \<Rightarrow> Inl e
         | Inr y \<Rightarrow> uniform_add loc_out w (Suc j) k (output[j := output ! j + y]))
      else Inl IndexError)"

text \<open>The Units after the first, in the branch of scalar weights.\<close>

fun uniform_rest :: "store \<Rightarrow> bool \<Rightarrow> (hru \<times> weight) list \<Rightarrow> real list \<Rightarrow> error + real list" where
  "uniform_rest st solve [] output = Inr output"
| "uniform_rest st solve ((h, w) # rest) output =
     (case unit_get_output st h solve of Inl e \<Rightarrow> Inl e
      | Inr loc_out \<Rightarrow>
         (case uniform_add loc_out w 0 (length output) output of Inl e \<Rightarrow> Inl e
          | Inr output' \<Rightarrow> uniform_rest st solve rest output'))"

text \<open>
  The branch of scalar weights. With no pair to loop over, \<open>output\<close> is never bound
  and the \<open>return\<close> raises UnboundLocalError.
\<close>

definition uniform_branch :: "store \<Rightarrow> bool \<Rightarrow> (hru \<times> weight) list \<Rightarrow> error + real list" where
  "uniform_branch st solve pairs =
     (case pairs of [] \<Rightarrow> Inl UnboundLocalError
      | (h, w) # rest \<Rightarrow>
         (case unit_get_output st h solve of Inl e \<Rightarrow> Inl e
          | Inr loc_out \<Rightarrow>
             (case scale_all loc_out w of Inl e \<Rightarrow> Inl e
              | Inr output \<Rightarrow> uniform_rest st solve rest output)))"

text \<open>\<open>len(w)\<close>: only a list has a length.\<close>

fun weight_entries :: "weight \<Rightarrow> error + real option list" where
  "weight_entries (WMask ms) = Inr ms"
| "weight_entries (WFloat x) = Inl TypeError"
| "weight_entries (WInt k) = Inl TypeError"

text \<open>
  The first Unit in the branch of weight lists: the loop over \<open>j\<close> appends to \<open>output\<close>;
  the second argument holds the entries \<open>w[j], w[j+1], ...\<close> still to visit and
  \<open>out_count\<close> is the next unused value of \<open>loc_out\<close>.
\<close>

fun mask_first :: "real list \<Rightarrow> real option list \<Rightarrow> nat \<Rightarrow> real list \<Rightarrow> error + real list" where
  "mask_first loc_out [] out_count output = Inr output"
| "mask_first loc_out (None # ws) out_count output =
     mask_first loc_out ws out_count (output @ [0])"
| "mask_first loc_out (Some x # ws) out_count output =
     (if out_count < length loc_out
      then mask_first loc_out ws (Suc out_count) (output @ [loc_out ! out_count * x])
      else Inl IndexError)"

text \<open>A later Unit: \<open>output[j] += loc_out[out_count] * w[j]\<close> where \<open>w[j]\<close> is not \<open>None\<close>.\<close>

fun mask_add :: "real list \<Rightarrow> real option list \<Rightarrow> nat \<Rightarrow> nat \<Rightarrow> real list \<Rightarrow> error + real list" where
  "mask_add loc_out [] j out_count output = Inr output"
| "mask_add loc_out (None # ws) j out_count output =
     mask_add loc_out ws (Suc j) out_count output"
| "mask_add loc_out (Some x # ws) j out_count output =
     (if j < length output \<and> out_count < length loc_out
      then mask_add loc_out ws (Suc j) (Suc out_count)
             (output[j := output ! j + loc_out ! out_count * x])
      else Inl IndexError)"

fun mask_rest :: "store \<Rightarrow> bool \<Rightarrow> (hru \<times> weight) list \<Rightarrow> real list \<Rightarrow> error + real list" where
  "mask_rest st solve [] output = Inr output"
| "mask_rest st solve ((h, w) # rest) output =
     (case unit_get_output st h solve of Inl e \<Rightarrow> Inl e
      | Inr loc_out \<Rightarrow>
         (case weight_entries w of Inl e \<Rightarrow> Inl e
          | Inr ms \<Rightarrow>
             (case mask_add loc_out ms 0 0 output of Inl e \<Rightarrow> Inl e
              | Inr output' \<Rightarrow> mask_rest st solve rest output')))"

definition mask_branch :: "store \<Rightarrow> bool \<Rightarrow> (hru \<times> weight) list \<Rightarrow> error + real list" where
  "mask_branch st solve pairs =
     (case pairs of [] \<Rightarrow> Inl UnboundLocalError
      | (h, w) # rest \<Rightarrow>
         (case unit_get_output st h solve of Inl e \<Rightarrow> Inl e
          | Inr loc_out \<Rightarrow>
             (case weight_entries w of Inl e \<Rightarrow> Inl e
              | Inr ms \<Rightarrow>
                 (case mask_first loc_out ms 0 [] of Inl e \<Rightarrow> Inl e
                  | Inr output \<Rightarrow> mask_rest st solve rest output))))"

text \<open>
  \<open>get_output\<close>: the inputs are set, \<open>isinstance(self._weights[0], float)\<close> chooses the
  branch (IndexError when there is no weight), and the result goes through
  \<open>_internal_routing\<close>.
\<close>

definition get_output :: "store \<Rightarrow> node \<Rightarrow> bool \<Rightarrow> error + real list" where
  "get_output st n solve =
     (case set_inputs n of Inl e \<Rightarrow> Inl e
      | Inr hs \<Rightarrow>
         (case weights n of [] \<Rightarrow> Inl IndexError
          | w0 # ws \<Rightarrow>
             (case (if is_float w0 then uniform_branch st solve (zip hs (weights n))
                    else mask_branch st solve (zip hs (weights n))) of
                Inl e \<Rightarrow> Inl e
              | Inr output \<Rightarrow> Inr (internal_routing n output))))"

subsection \<open>Addressing: get_internal and call_internal\<close>

text \<open>\<open>id.split('_')\<close>: the segments between the separators, empty ones included.\<close>

fun split_on :: "char \<Rightarrow> string \<Rightarrow> string list" where
  "split_on sep [] = [[]]"
| "split_on sep (c # cs) =
     (if c = sep then [] # split_on sep cs
      else (case split_on sep cs of [] \<Rightarrow> [[c]] | s # ss \<Rightarrow> (c # s) # ss))"

text \<open>
  Modelled from the spec: \<open>_find_content_from_name\<close> belongs to the class
  GenericComponent, which is missing from the source. The spec says that the first
  segment of the id selects the index of a Unit through \<open>_content_pointer\<close>; an id
  that the dictionary does not know is a KeyError.
\<close>

definition find_content_from_name :: "node \<Rightarrow> string \<Rightarrow> error + nat" where
  "find_content_from_name n i =
     (case split_on CHR ''_'' i of [] \<Rightarrow> Inl IndexError
      | seg # segs \<Rightarrow>
         (case content_pointer n seg of None \<Rightarrow> Inl (KeyError seg) | Some k \<Rightarrow> Inr k))"

definition find_attribute_from_name :: "node \<Rightarrow> string \<Rightarrow> error + nat \<times> bool" where
  "find_attribute_from_name n i =
     (let splitted = split_on CHR ''_'' i in
      case find_content_from_name n i of Inl e \<Rightarrow> Inl e
      | Inr hru_num \<Rightarrow>
         if length splitted = 3 then Inr (hru_num, True) else Inr (hru_num, False))"

text \<open>\<open>self._content[hru_num]\<close>\<close>

definition content_at :: "node \<Rightarrow> nat \<Rightarrow> error + hru" where
  "content_at n k = (if k < length (content n) then Inr (content n ! k) else Inl IndexError)"

definition get_internal :: "node \<Rightarrow> string \<Rightarrow> string \<Rightarrow> error + member" where
  "get_internal n i attribute =
     (case find_attribute_from_name n i of Inl e \<Rightarrow> Inl e
      | Inr (hru_num, ele) \<Rightarrow>
         if ele then
           (case content_at n hru_num of Inl e \<Rightarrow> Inl e
            | Inr h \<Rightarrow> u_get_internal h i attribute)
         else
           (case content_at n hru_num of Inl e \<Rightarrow> Inl e
            | Inr h \<Rightarrow>
               (case unit_getattr h attribute of
                  None \<Rightarrow> Inl (AttributeError
                             (error_message n @ ''the attribute '' @ attribute @ '' does not exist.''))
                | Some m \<Rightarrow> Inr m)))"

text \<open>
  In \<open>call_internal\<close> the \<open>try\<close> block holds both \<open>getattr\<close> and the call, and the name
  \<open>method\<close> is bound to the callable once \<open>getattr\<close> has returned: an AttributeError
  raised by the callable is caught and the message is formatted with the callable.
  Calling a member that is not callable is a TypeError.
\<close>

definition call_internal :: "node \<Rightarrow> string \<Rightarrow> string \<Rightarrow> kwargs \<Rightarrow> error + pyval" where
  "call_internal n i method kw =
     (case find_attribute_from_name n i of Inl e \<Rightarrow> Inl e
      | Inr (hru_num, ele) \<Rightarrow>
         if ele then
           (case content_at n hru_num of Inl e \<Rightarrow> Inl e
            | Inr h \<Rightarrow> u_call_internal h i method kw)
         else
           (case content_at n hru_num of Inl e \<Rightarrow> Inl e
            | Inr h \<Rightarrow>
               (case unit_getattr h method of
                  None \<Rightarrow> Inl (AttributeError
                             (error_message n @ ''the method '' @ method @ '' does not exist.''))
                | Some (Data v) \<Rightarrow> Inl TypeError
                | Some (Method shown f) \<Rightarrow>
                   (case f kw of
                      Inl (AttributeError msg) \<Rightarrow>
                        Inl (AttributeError
                               (error_message n @ ''the method '' @ shown @ '' does not exist.''))
                    | Inl e \<Rightarrow> Inl e
                    | Inr v \<Rightarrow> Inr v))))"

subsection \<open>Copying a Node\<close>

definition node_copy :: "node \<Rightarrow> error + node" where
  "node_copy n = Inl (AttributeError (error_message n @ ''A Node cannot be copied''))"

definition node_deepcopy :: "node \<Rightarrow> 'memo \<Rightarrow> error + node" where
  "node_deepcopy n memo = Inl (AttributeError (error_message n @ ''A Node cannot be copied''))"

subsection \<open>The combination of weight lists, in the words of the specification\<close>

text \<open>
  The specification describes the branch of weight lists position by position. A
  Unit with the weight list \<open>ms\<close> has consumed, before position \<open>j\<close>, one of its output
  values for every entry of \<open>ms\<close> before \<open>j\<close> that is not \<open>None\<close>. At position \<open>j\<close> it
  contributes nothing where \<open>ms[j]\<close> is \<open>None\<close>, and \<open>ms[j]\<close> times its next unused output
  value otherwise.
\<close>

definition consumed :: "real option list \<Rightarrow> nat \<Rightarrow> nat" where
  "consumed ms j = length (filter (\<lambda>e. e \<noteq> None) (take j ms))"

definition mask_contribution :: "real option list \<Rightarrow> real list \<Rightarrow> nat \<Rightarrow> real" where
  "mask_contribution ms lo j =
     (case ms ! j of None \<Rightarrow> 0 | Some w \<Rightarrow> w * lo ! consumed ms j)"

subsection \<open>Units and a store for the examples\<close>

text \<open>
  A Unit that returns the given outputs whatever its input. It has the attribute
  \<open>id\<close>, a method that returns a value and a method that raises AttributeError
  while it runs; its own \<open>get_internal\<close> and \<open>call_internal\<close> return the path they
  were asked for.
\<close>

definition example_unit :: "string \<Rightarrow> nat \<Rightarrow> real list \<Rightarrow> hru" where
  "example_unit i a outs =
     \<lparr>uid = i, pars = a, states = [(''S0'', 0)], u_input = None,
      solver = (\<lambda>ps ss inp solve. Inr outs),
      members =
        [(''id'', Data (PStr i)),
         (''get_parameters_name'',
            Method ''<bound method Unit.get_parameters_name>'' (\<lambda>kw. Inr (PStr ''k''))),
         (''reset_states'',
            Method ''<bound method Unit.reset_states>'' (\<lambda>kw. Inl (AttributeError ''_init_states'')))],
      u_get_internal = (\<lambda>i' a'. Inr (Data (PStr (i' @ ''.'' @ a')))),
      u_call_internal = (\<lambda>i' m kw. Inr (PStr (i' @ ''.'' @ m)))\<rparr>"

definition example_store :: store where
  "example_store = \<lparr>heap = (\<lambda>a. [(''k'', 1)]), next_free = 2\<rparr>"

section \<open>Properties\<close>

subsection \<open>The branch of scalar weights\<close>

lemma scale_all_float: "scale_all lo (WFloat w) = Inr (map (\<lambda>x. x * w) lo)"
  by (induction lo) simp_all

lemma uniform_add_float:
  "length out \<le> length lo \<Longrightarrow> j + k = length out \<Longrightarrow>
   uniform_add lo (WFloat w) j k out =
     Inr (take j out @ map2 (\<lambda>a b. a + b * w) (drop j out) (drop j lo))"
proof (induction k arbitrary: j out)
  case 0
  then show ?case by simp
next
  case (Suc k)
  from Suc.prems have j: "j < length out" "j < length lo" by simp_all
  let ?out = "out[j := out ! j + lo ! j * w]"
  have "uniform_add lo (WFloat w) (Suc j) k ?out =
     Inr (take (Suc j) ?out @ map2 (\<lambda>a b. a + b * w) (drop (Suc j) ?out) (drop (Suc j) lo))"
    using Suc.prems by (intro Suc.IH) simp_all
  moreover have "take (Suc j) ?out = take j out @ [out ! j + lo ! j * w]"
    using j by (simp add: take_Suc_conv_app_nth)
  moreover have "drop j out = out ! j # drop (Suc j) out" "drop j lo = lo ! j # drop (Suc j) lo"
    using j by (simp_all add: Cons_nth_drop_Suc)
  ultimately show ?case using j by simp
qed

lemma uniform_add_nth:
  assumes "length lo = length out"
  shows "uniform_add lo (WFloat w) 0 (length out) out =
           Inr (map (\<lambda>k. out ! k + w * lo ! k) [0..<length out])"
proof -
  have "map2 (\<lambda>a b. a + b * w) out lo = map (\<lambda>k. out ! k + w * lo ! k) [0..<length out]"
    using assms by (intro nth_equalityI) (simp_all add: mult.commute)
  then show ?thesis using uniform_add_float [of out lo 0 "length out" w] assms by simp
qed

lemma uniform_rest_sum:
  "length hs = length ws \<Longrightarrow> length ws = length los \<Longrightarrow>
   (\<forall>i<length ws. unit_get_output st (hs ! i) solve = Inr (los ! i) \<and> length (los ! i) = length out) \<Longrightarrow>
   uniform_rest st solve (zip hs (map WFloat ws)) out =
     Inr (map (\<lambda>k. out ! k + (\<Sum>i<length ws. ws ! i * los ! i ! k)) [0..<length out])"
proof (induction hs ws los arbitrary: out rule: list_induct3)
  case Nil
  then show ?case by (simp add: map_nth)
next
  case (Cons h hs w ws lo los)
  from Cons.prems have h0: "unit_get_output st h solve = Inr lo" "length lo = length out"
    by auto
  let ?out = "map (\<lambda>k. out ! k + w * lo ! k) [0..<length out]"
  have rest: "\<forall>i<length ws. unit_get_output st (hs ! i) solve = Inr (los ! i) \<and> length (los ! i) = length ?out"
    using Cons.prems by auto
  have "uniform_rest st solve (zip hs (map WFloat ws)) ?out =
     Inr (map (\<lambda>k. ?out ! k + (\<Sum>i<length ws. ws ! i * los ! i ! k)) [0..<length ?out])"
    by (rule Cons.IH [OF rest])
  then show ?case using h0
    by (simp add: uniform_add_nth sum.lessThan_Suc_shift add.assoc del: sum.lessThan_Suc)
qed

text \<open>
  Float weights. A Node has its input set, as many float weights \<open>ws\<close> as Units and
  at least one Unit, and its Units return output sequences \<open>los\<close> of one length \<open>m\<close>.
  Then \<open>get_output\<close> returns the sequence of length \<open>m\<close> whose value at every
  position \<open>k\<close> is the sum over all Units \<open>i\<close> of \<open>ws[i] * los[i][k]\<close>. The code starts
  from the scaled output of the first Unit and adds the others; the sum is the same.
\<close>

lemma get_output_float_weighted_sum:
  assumes "input n = Some inp"
    and "weights n = map WFloat ws"
    and "length (content n) = length ws"
    and "content n \<noteq> []"
    and "length ws = length los"
    and "\<forall>i<length ws. unit_get_output st (unit_set_input inp (content n ! i)) solve = Inr (los ! i)
           \<and> length (los ! i) = m"
  shows "get_output st n solve = Inr (map (\<lambda>k. \<Sum>i<length ws. ws ! i * los ! i ! k) [0..<m])"
proof -
  from assms(3,4) obtain h hs where c: "content n = h # hs"
    by (cases "content n") simp_all
  with assms(3) obtain w ws' where ws: "ws = w # ws'"
    by (cases ws) simp_all
  with assms(5) obtain lo los' where los: "los = lo # los'"
    by (cases los) simp_all
  have len: "length (map (unit_set_input inp) hs) = length ws'" "length ws' = length los'"
    using assms(3,5) c ws los by simp_all
  from assms(6) [rule_format, of 0] have first:
    "unit_get_output st (unit_set_input inp h) solve = Inr lo" "length lo = m"
    using c ws los by simp_all
  let ?out = "map (\<lambda>x. x * w) lo"
  have "\<forall>i<length ws'. unit_get_output st (map (unit_set_input inp) hs ! i) solve = Inr (los' ! i)
          \<and> length (los' ! i) = length ?out"
  proof (intro allI impI)
    fix i assume i: "i < length ws'"
    then have "Suc i < length ws" using ws by simp
    from assms(6) [rule_format, OF this] show
      "unit_get_output st (map (unit_set_input inp) hs ! i) solve = Inr (los' ! i)
          \<and> length (los' ! i) = length ?out"
      using c ws los i len first by simp
  qed
  from uniform_rest_sum [OF len this] have rest:
    "uniform_rest st solve (zip (map (unit_set_input inp) hs) (map WFloat ws')) ?out =
       Inr (map (\<lambda>k. ?out ! k + (\<Sum>i<length ws'. ws' ! i * los' ! i ! k)) [0..<length ?out])" .
  have "get_output st n solve =
      Inr (map (\<lambda>k. ?out ! k + (\<Sum>i<length ws'. ws' ! i * los' ! i ! k)) [0..<length ?out])"
    using assms(1,2) c ws first(1) rest
    by (simp add: get_output_def set_inputs_def uniform_branch_def scale_all_float
        internal_routing_def)
  also have "map (\<lambda>k. ?out ! k + (\<Sum>i<length ws'. ws' ! i * los' ! i ! k)) [0..<length ?out] =
      map (\<lambda>k. \<Sum>i<length ws. ws ! i * los ! i ! k) [0..<m]"
    using first(2) ws los
    by (simp add: sum.lessThan_Suc_shift mult.commute del: sum.lessThan_Suc)
  finally show ?thesis .
qed

text \<open>
  Units \<open>A\<close> and \<open>B\<close> return \<open>[2.0]\<close> and \<open>[3.0]\<close>, the weights are the floats
  \<open>[0.25, 0.75]\<close>, and \<open>get_output\<close> returns \<open>[2.75]\<close>.
\<close>

lemma get_output_float_weighted_sum_example:
  "get_output example_store
     (set_input (fst (Node_init example_store
        [example_unit ''A'' 0 [2], example_unit ''B'' 1 [3]]
        [WFloat 0.25, WFloat 0.75] 1 ''n'' True)) [5]) True = Inr [2.75]"
  using get_output_float_weighted_sum [of
      "set_input (fst (Node_init example_store
        [example_unit ''A'' 0 [2], example_unit ''B'' 1 [3]]
        [WFloat 0.25, WFloat 0.75] 1 ''n'' True)) [5]"
      "[5]" "[0.25, 0.75]" "[[2], [3]]" example_store True 1]
  by (simp add: set_input_def Node_init_def unit_copy_def add_prefix_states_def
      unit_add_prefix_states_def add_prefix_def example_unit_def unit_get_output_def
      unit_set_input_def nth_Cons' lessThan_Suc numeral_2_eq_2 less_Suc_eq)

text \<open>
  Claim C1 fails on the code. The claim is about every Node whose weights are uniform
  scalars: at every position \<open>k\<close> the output is the sum over the Units of
  \<open>w_i * o_i[k]\<close>. The integers \<open>[1, 1]\<close> are uniform scalars, and with Units that
  return \<open>[2.0]\<close> and \<open>[3.0]\<close> the sum is \<open>[5.0]\<close>. But \<open>isinstance(1, float)\<close> is false:
  the branch of weight lists runs and \<open>len(w)\<close> raises TypeError. The same happens
  with the single weight \<open>[1]\<close>. The docstring of \<open>__init__\<close> keeps the treatment by
  position for a weight that is a list, which an integer is not.
\<close>

theorem get_output_integer_weights_raise:
  "get_output example_store
     (set_input (fst (Node_init example_store
        [example_unit ''A'' 0 [2], example_unit ''B'' 1 [3]]
        [WInt 1, WInt 1] 1 ''n'' True)) [5]) True = Inl TypeError
   \<and> get_output example_store
     (set_input (fst (Node_init example_store
        [example_unit ''A'' 0 [2]] [WInt 1] 1 ''n'' True)) [5]) True = Inl TypeError"
  by (simp add: get_output_def set_inputs_def mask_branch_def
      set_input_def Node_init_def unit_copy_def add_prefix_states_def
      unit_add_prefix_states_def add_prefix_def example_unit_def unit_get_output_def
      unit_set_input_def)

subsection \<open>The branch of weight lists\<close>

lemma consumed_append_length: "consumed (pre @ ws) (length pre) = consumed pre (length pre)"
  by (simp add: consumed_def)

lemma consumed_snoc:
  "consumed (pre @ [e]) (Suc (length pre)) = consumed pre (length pre) + (if e = None then 0 else 1)"
  by (simp add: consumed_def)

lemma consumed_mono: "consumed pre (length pre) \<le> consumed (pre @ ws) (length (pre @ ws))"
  by (simp add: consumed_def)

lemma mask_contribution_here:
  "mask_contribution (pre @ e # ws) lo (length pre) =
     (case e of None \<Rightarrow> 0 | Some w \<Rightarrow> w * lo ! consumed pre (length pre))"
  by (cases e) (simp_all add: mask_contribution_def consumed_append_length)

lemma mask_first_closed:
  "c = consumed pre (length pre) \<Longrightarrow>
   consumed (pre @ ws) (length (pre @ ws)) \<le> length lo \<Longrightarrow>
   mask_first lo ws c out =
     Inr (out @ map (mask_contribution (pre @ ws) lo) [length pre..<length pre + length ws])"
proof (induction ws arbitrary: pre c out)
  case Nil
  then show ?case by simp
next
  case (Cons e ws)
  have split: "pre @ e # ws = (pre @ [e]) @ ws" by simp
  have upt: "[length pre..<length pre + length (e # ws)] =
      length pre # [length (pre @ [e])..<length (pre @ [e]) + length ws]"
    by (simp add: upt_rec)
  have bound: "consumed ((pre @ [e]) @ ws) (length ((pre @ [e]) @ ws)) \<le> length lo"
    using Cons.prems(2) by simp
  show ?case
  proof (cases e)
    case None
    have c': "c = consumed (pre @ [e]) (length (pre @ [e]))"
      using Cons.prems(1) None consumed_snoc [of pre e] by simp
    from Cons.IH [OF c' bound, of "out @ [0]"] None show ?thesis
      unfolding upt using mask_contribution_here [of pre e ws lo] by simp
  next
    case (Some x)
    have c': "Suc c = consumed (pre @ [e]) (length (pre @ [e]))"
      using Cons.prems(1) Some consumed_snoc [of pre e] by simp
    have lt: "c < length lo"
      using consumed_mono [of "pre @ [e]" ws] bound c' by linarith
    from Cons.IH [OF c' bound, of "out @ [lo ! c * x]"] Some lt Cons.prems(1) show ?thesis
      unfolding upt using mask_contribution_here [of pre e ws lo] by (simp add: mult.commute)
  qed
qed

lemma mask_first_nth:
  assumes "consumed ms (length ms) \<le> length lo"
  shows "mask_first lo ms 0 [] = Inr (map (mask_contribution ms lo) [0..<length ms])"
  using mask_first_closed [of 0 "[]" ms lo "[]"] assms by (simp add: consumed_def)

lemma mask_add_closed:
  "j = length pre \<Longrightarrow> c = consumed pre (length pre) \<Longrightarrow>
   consumed (pre @ ws) (length (pre @ ws)) \<le> length lo \<Longrightarrow>
   length (pre @ ws) \<le> length out \<Longrightarrow>
   mask_add lo ws j c out =
     Inr (map (\<lambda>k. out ! k + (if length pre \<le> k \<and> k < length pre + length ws
                               then mask_contribution (pre @ ws) lo k else 0))
            [0..<length out])"
proof (induction ws arbitrary: pre j c out)
  case Nil
  then show ?case by (auto intro!: nth_equalityI)
next
  case (Cons e ws)
  have bound: "consumed ((pre @ [e]) @ ws) (length ((pre @ [e]) @ ws)) \<le> length lo"
    using Cons.prems(3) by simp
  have j': "Suc j = length (pre @ [e])" using Cons.prems(1) by simp
  have jlt: "j < length out" using Cons.prems(1,4) by simp
  show ?case
  proof (cases e)
    case None
    have c': "c = consumed (pre @ [e]) (length (pre @ [e]))"
      using Cons.prems(2) None consumed_snoc [of pre e] by simp
    have len: "length ((pre @ [e]) @ ws) \<le> length out" using Cons.prems(4) by simp
    have here: "mask_contribution (pre @ e # ws) lo (length pre) = 0"
      using mask_contribution_here [of pre e ws lo] None by simp
    have "mask_add lo (e # ws) j c out = mask_add lo ws (Suc j) c out"
      using None by simp
    also have "\<dots> = Inr (map (\<lambda>k. out ! k + (if length (pre @ [e]) \<le> k \<and> k < length (pre @ [e]) + length ws
                               then mask_contribution ((pre @ [e]) @ ws) lo k else 0))
            [0..<length out])"
      by (rule Cons.IH [OF j' c' bound len])
    also have "\<dots> = Inr (map (\<lambda>k. out ! k + (if length pre \<le> k \<and> k < length pre + length (e # ws)
                               then mask_contribution (pre @ e # ws) lo k else 0))
            [0..<length out])"
      using here by (auto simp: le_less Suc_le_eq)
    finally show ?thesis .
  next
    case (Some x)
    have c': "Suc c = consumed (pre @ [e]) (length (pre @ [e]))"
      using Cons.prems(2) Some consumed_snoc [of pre e] by simp
    have lt: "c < length lo"
      using consumed_mono [of "pre @ [e]" ws] bound c' by linarith
    let ?out = "out[j := out ! j + lo ! c * x]"
    have len: "length ((pre @ [e]) @ ws) \<le> length ?out" using Cons.prems(4) by simp
    have here: "mask_contribution (pre @ e # ws) lo (length pre) = lo ! c * x"
      using mask_contribution_here [of pre e ws lo] Some Cons.prems(2) by (simp add: mult.commute)
    have "mask_add lo (e # ws) j c out = mask_add lo ws (Suc j) (Suc c) ?out"
      using Some jlt lt by simp
    also have "\<dots> = Inr (map (\<lambda>k. ?out ! k + (if length (pre @ [e]) \<le> k \<and> k < length (pre @ [e]) + length ws
                               then mask_contribution ((pre @ [e]) @ ws) lo k else 0))
            [0..<length ?out])"
      by (rule Cons.IH [OF j' c' bound len])
    also have "\<dots> = Inr (map (\<lambda>k. out ! k + (if length pre \<le> k \<and> k < length pre + length (e # ws)
                               then mask_contribution (pre @ e # ws) lo k else 0))
            [0..<length out])"
      using here Cons.prems(1) jlt by (auto simp: le_less Suc_le_eq nth_list_update)
    finally show ?thesis .
  qed
qed

lemma mask_add_nth:
  assumes "consumed ms (length ms) \<le> length lo" and "length ms = length out"
  shows "mask_add lo ms 0 0 out = Inr (map (\<lambda>k. out ! k + mask_contribution ms lo k) [0..<length out])"
  using mask_add_closed [of 0 "[]" 0 ms lo out] assms by (simp add: consumed_def)

lemma mask_rest_sum:
  "length hs = length mss \<Longrightarrow> length mss = length los \<Longrightarrow>
   (\<forall>i<length mss. unit_get_output st (hs ! i) solve = Inr (los ! i)
      \<and> length (mss ! i) = length out
      \<and> consumed (mss ! i) (length (mss ! i)) \<le> length (los ! i)) \<Longrightarrow>
   mask_rest st solve (zip hs (map WMask mss)) out =
     Inr (map (\<lambda>k. out ! k + (\<Sum>i<length mss. mask_contribution (mss ! i) (los ! i) k)) [0..<length out])"
proof (induction hs mss los arbitrary: out rule: list_induct3)
  case Nil
  then show ?case by (simp add: map_nth)
next
  case (Cons h hs ms mss lo los)
  from Cons.prems have h0: "unit_get_output st h solve = Inr lo" "length ms = length out"
    "consumed ms (length ms) \<le> length lo"
    by auto
  let ?out = "map (\<lambda>k. out ! k + mask_contribution ms lo k) [0..<length out]"
  have rest: "\<forall>i<length mss. unit_get_output st (hs ! i) solve = Inr (los ! i)
      \<and> length (mss ! i) = length ?out
      \<and> consumed (mss ! i) (length (mss ! i)) \<le> length (los ! i)"
    using Cons.prems by auto
  have "mask_rest st solve (zip hs (map WMask mss)) ?out =
     Inr (map (\<lambda>k. ?out ! k + (\<Sum>i<length mss. mask_contribution (mss ! i) (los ! i) k)) [0..<length ?out])"
    by (rule Cons.IH [OF rest])
  then show ?case using h0
    by (simp add: mask_add_nth sum.lessThan_Suc_shift add.assoc del: sum.lessThan_Suc)
qed

text \<open>
  Claim C2. A Node has its input set, as many weight lists \<open>mss\<close> as Units, all of one
  length \<open>m\<close>, and at least one Unit, and every Unit returns at least as many output
  values as its weight list has entries that are not \<open>None\<close>. Then \<open>get_output\<close> returns
  the sequence of length \<open>m\<close> whose value at every position \<open>j\<close> is the sum over the
  Units of their contributions at \<open>j\<close>: nothing where the entry of the Unit is \<open>None\<close>
  (and no output value is consumed), the entry times the next unused output value of
  the Unit otherwise. A position where the entry of every Unit is \<open>None\<close> holds 0 in
  the result, which is not an error.
\<close>

theorem get_output_mask_positions:
  assumes "input n = Some inp"
    and "weights n = map WMask mss"
    and "length (content n) = length mss"
    and "content n \<noteq> []"
    and "length mss = length los"
    and "\<forall>i<length mss. unit_get_output st (unit_set_input inp (content n ! i)) solve = Inr (los ! i)
           \<and> length (mss ! i) = m \<and> consumed (mss ! i) m \<le> length (los ! i)"
  shows "get_output st n solve =
           Inr (map (\<lambda>j. \<Sum>i<length mss. mask_contribution (mss ! i) (los ! i) j) [0..<m])
         \<and> (\<forall>j<m. (\<forall>i<length mss. mss ! i ! j = None) \<longrightarrow>
               map (\<lambda>j. \<Sum>i<length mss. mask_contribution (mss ! i) (los ! i) j) [0..<m] ! j = 0)"
proof
  from assms(3,4) obtain h hs where c: "content n = h # hs"
    by (cases "content n") simp_all
  with assms(3) obtain ms mss' where mss: "mss = ms # mss'"
    by (cases mss) simp_all
  with assms(5) obtain lo los' where los: "los = lo # los'"
    by (cases los) simp_all
  have len: "length (map (unit_set_input inp) hs) = length mss'" "length mss' = length los'"
    using assms(3,5) c mss los by simp_all
  from assms(6) [rule_format, of 0] have first:
    "unit_get_output st (unit_set_input inp h) solve = Inr lo" "length ms = m"
    "consumed ms (length ms) \<le> length lo"
    using c mss los by simp_all
  let ?out = "map (mask_contribution ms lo) [0..<length ms]"
  have "\<forall>i<length mss'. unit_get_output st (map (unit_set_input inp) hs ! i) solve = Inr (los' ! i)
          \<and> length (mss' ! i) = length ?out
          \<and> consumed (mss' ! i) (length (mss' ! i)) \<le> length (los' ! i)"
  proof (intro allI impI)
    fix i assume i: "i < length mss'"
    then have "Suc i < length mss" using mss by simp
    from assms(6) [rule_format, OF this] show
      "unit_get_output st (map (unit_set_input inp) hs ! i) solve = Inr (los' ! i)
          \<and> length (mss' ! i) = length ?out
          \<and> consumed (mss' ! i) (length (mss' ! i)) \<le> length (los' ! i)"
      using c mss los i len first by simp
  qed
  from mask_rest_sum [OF len this] have rest:
    "mask_rest st solve (zip (map (unit_set_input inp) hs) (map WMask mss')) ?out =
       Inr (map (\<lambda>k. ?out ! k + (\<Sum>i<length mss'. mask_contribution (mss' ! i) (los' ! i) k))
              [0..<length ?out])" .
  have "get_output st n solve =
      Inr (map (\<lambda>k. ?out ! k + (\<Sum>i<length mss'. mask_contribution (mss' ! i) (los' ! i) k))
             [0..<length ?out])"
    using assms(1,2) c mss first(1,3) rest
    by (simp add: get_output_def set_inputs_def mask_branch_def mask_first_nth
        internal_routing_def)
  also have "map (\<lambda>k. ?out ! k + (\<Sum>i<length mss'. mask_contribution (mss' ! i) (los' ! i) k))
             [0..<length ?out] =
      map (\<lambda>j. \<Sum>i<length mss. mask_contribution (mss ! i) (los ! i) j) [0..<m]"
    using first(2) mss los
    by (simp add: sum.lessThan_Suc_shift del: sum.lessThan_Suc)
  finally show "get_output st n solve =
      Inr (map (\<lambda>j. \<Sum>i<length mss. mask_contribution (mss ! i) (los ! i) j) [0..<m])" .
next
  show "\<forall>j<m. (\<forall>i<length mss. mss ! i ! j = None) \<longrightarrow>
      map (\<lambda>j. \<Sum>i<length mss. mask_contribution (mss ! i) (los ! i) j) [0..<m] ! j = 0"
    by (simp add: mask_contribution_def)
qed

text \<open>
  Two Units with the weight lists \<open>[1, None, 2]\<close> and \<open>[None, None, 0.5]\<close> and the
  outputs \<open>[10, 20]\<close> and \<open>[4]\<close>: position 1 is \<open>None\<close> for both and holds 0.
\<close>

theorem get_output_mask_positions_witness:
  "get_output example_store
     (set_input (fst (Node_init example_store
        [example_unit ''A'' 0 [10, 20], example_unit ''B'' 1 [4]]
        [WMask [Some 1, None, Some 2], WMask [None, None, Some 0.5]] 1 ''n'' True)) [5]) True
     = Inr [10, 0, 42]"
  using get_output_mask_positions [of
      "set_input (fst (Node_init example_store
        [example_unit ''A'' 0 [10, 20], example_unit ''B'' 1 [4]]
        [WMask [Some 1, None, Some 2], WMask [None, None, Some 0.5]] 1 ''n'' True)) [5]"
      "[5]" "[[Some 1, None, Some 2], [None, None, Some 0.5]]" "[[10, 20], [4]]"
      example_store True 3]
  by (simp add: set_input_def Node_init_def unit_copy_def add_prefix_states_def
      unit_add_prefix_states_def add_prefix_def example_unit_def unit_get_output_def
      unit_set_input_def nth_Cons' lessThan_Suc numeral_2_eq_2 numeral_3_eq_3 less_Suc_eq
      consumed_def mask_contribution_def upt_rec)

text \<open>
  Claim C3, as stated, fails: with the weights \<open>[[1.0, None], [None, 1.0]]\<close> and Units
  that return \<open>[1, 2]\<close> and \<open>[3, 4]\<close>, the result is not \<open>[unitA_out[0], unitB_out[1]]\<close>,
  which would be \<open>[1, 4]\<close>.
\<close>

theorem get_output_two_masks_counterexample:
  "get_output example_store
     (set_input (fst (Node_init example_store
        [example_unit ''A'' 0 [1, 2], example_unit ''B'' 1 [3, 4]]
        [WMask [Some 1, None], WMask [None, Some 1]] 1 ''n'' True)) [5]) True
     \<noteq> Inr [[1, 2] ! 0, [3, 4] ! 1]"
  by (simp add: get_output_def set_inputs_def mask_branch_def internal_routing_def
      set_input_def Node_init_def unit_copy_def add_prefix_states_def
      unit_add_prefix_states_def add_prefix_def example_unit_def unit_get_output_def
      unit_set_input_def)

text \<open>
  Claim C3, amended. For a Node with two Units that return \<open>[a0, a1]\<close> and \<open>[b0, b1]\<close> and
  the weights \<open>[[1.0, None], [None, 1.0]]\<close>, \<open>get_output\<close> returns \<open>[a0, b0]\<close>: Unit B
  contributes at position 1 its first output, the next value it has not used, since
  its entry at position 0 is \<open>None\<close> and consumes nothing.
\<close>

theorem get_output_two_masks:
  assumes "input n = Some inp"
    and "content n = [hA, hB]"
    and "weights n = [WMask [Some 1, None], WMask [None, Some 1]]"
    and "unit_get_output st (unit_set_input inp hA) solve = Inr [a0, a1]"
    and "unit_get_output st (unit_set_input inp hB) solve = Inr [b0, b1]"
  shows "get_output st n solve = Inr [a0, b0]"
  using assms
  by (simp add: get_output_def set_inputs_def mask_branch_def internal_routing_def)

theorem get_output_two_masks_witness:
  "get_output example_store
     (set_input (fst (Node_init example_store
        [example_unit ''A'' 0 [1, 2], example_unit ''B'' 1 [3, 4]]
        [WMask [Some 1, None], WMask [None, Some 1]] 1 ''n'' True)) [5]) True
     = Inr [1, 3]"
  using get_output_two_masks [of
      "set_input (fst (Node_init example_store
        [example_unit ''A'' 0 [1, 2], example_unit ''B'' 1 [3, 4]]
        [WMask [Some 1, None], WMask [None, Some 1]] 1 ''n'' True)) [5]"
      "[5]" "unit_add_prefix_states ''n'' (example_unit ''A'' 0 [1, 2])"
      "unit_add_prefix_states ''n'' (example_unit ''B'' 1 [3, 4])" example_store True 1 2 3 4]
  by (simp add: set_input_def Node_init_def unit_copy_def add_prefix_states_def
      unit_add_prefix_states_def add_prefix_def example_unit_def unit_get_output_def
      unit_set_input_def)

subsection \<open>The choice of the branch\<close>

text \<open>
  Claim C9. \<open>get_output\<close> runs the branch of scalar weights if and only if the first
  weight is a float, and the branch of weight lists for every other first weight; the
  weights after the first, \<open>ws\<close>, are arbitrary here and play no part in the choice.
  When the first weight is an integer, the branch of weight lists is run and raises
  TypeError at \<open>len(w)\<close>, as soon as the first Unit has returned its output.
\<close>

theorem get_output_branch_by_first_weight:
  assumes "weights n = w0 # ws" and "set_inputs n = Inr hs"
  shows "get_output st n solve =
           (if is_float w0 then uniform_branch st solve (zip hs (w0 # ws))
            else mask_branch st solve (zip hs (w0 # ws)))
         \<and> (\<forall>k h hs' lo. w0 = WInt k \<longrightarrow> hs = h # hs' \<longrightarrow> unit_get_output st h solve = Inr lo \<longrightarrow>
               get_output st n solve = Inl TypeError)"
proof -
  have 1: "get_output st n solve =
           (if is_float w0 then uniform_branch st solve (zip hs (w0 # ws))
            else mask_branch st solve (zip hs (w0 # ws)))"
    using assms by (simp add: get_output_def internal_routing_def split: sum.split)
  have 2: "\<forall>k h hs' lo. w0 = WInt k \<longrightarrow> hs = h # hs' \<longrightarrow> unit_get_output st h solve = Inr lo \<longrightarrow>
               get_output st n solve = Inl TypeError"
    unfolding 1 by (simp add: mask_branch_def)
  from 1 2 show ?thesis by blast
qed

text \<open>
  With the weights \<open>[1, 0.75]\<close> the integer comes first and \<open>get_output\<close> raises
  TypeError; with \<open>[0.5, 2]\<close> the float comes first and the integer is used as a scalar:
  \<open>2 * 0.5 + 3 * 2 = 7\<close>.
\<close>

theorem get_output_branch_by_first_weight_witness:
  "get_output example_store
     (set_input (fst (Node_init example_store
        [example_unit ''A'' 0 [2], example_unit ''B'' 1 [3]]
        [WInt 1, WFloat 0.75] 1 ''n'' True)) [5]) True = Inl TypeError
   \<and> get_output example_store
     (set_input (fst (Node_init example_store
        [example_unit ''A'' 0 [2], example_unit ''B'' 1 [3]]
        [WFloat 0.5, WInt 2] 1 ''n'' True)) [5]) True = Inr [7]"
  using get_output_branch_by_first_weight [of
      "set_input (fst (Node_init example_store
        [example_unit ''A'' 0 [2], example_unit ''B'' 1 [3]]
        [WInt 1, WFloat 0.75] 1 ''n'' True)) [5]"
      "WInt 1" "[WFloat 0.75]"
      "map (unit_set_input [5]) (map (unit_add_prefix_states ''n'')
         [example_unit ''A'' 0 [2], example_unit ''B'' 1 [3]])" example_store True]
    get_output_branch_by_first_weight [of
      "set_input (fst (Node_init example_store
        [example_unit ''A'' 0 [2], example_unit ''B'' 1 [3]]
        [WFloat 0.5, WInt 2] 1 ''n'' True)) [5]"
      "WFloat 0.5" "[WInt 2]"
      "map (unit_set_input [5]) (map (unit_add_prefix_states ''n'')
         [example_unit ''A'' 0 [2], example_unit ''B'' 1 [3]])" example_store True]
  by (simp add: set_input_def set_inputs_def Node_init_def unit_copy_def add_prefix_states_def
      unit_add_prefix_states_def add_prefix_def example_unit_def unit_get_output_def
      unit_set_input_def uniform_branch_def mask_branch_def)

subsection \<open>Construction: prefixes and shared parameters\<close>

lemma Node_init_error_message:
  "error_message (fst (Node_init st us ws a i sh)) = make_error_message i"
  by (simp add: Node_init_def add_prefix_states_def split: prod.split)

text \<open>
  Claim C4 fails on the code. \<open>self.add_prefix_parameters(id)\<close> is called inside the
  loop over the Units, after each append, and it prefixes every Unit appended so far:
  of two Units, the first one is prefixed twice and its parameter \<open>k\<close> is named
  \<open>n_n_k\<close>, while the second one is prefixed once.
\<close>

theorem init_prefixes_first_unit_twice:
  "(case Node_init example_store [example_unit ''A'' 0 [2], example_unit ''B'' 1 [3]]
       [WFloat 0.25, WFloat 0.75] 1 ''n'' False of
      (n, st) \<Rightarrow> map (unit_get_parameters st) (content n))
   = [[(''n_n_k'', 1)], [(''n_k'', 1)]]"
  by (simp add: Node_init_def unit_deepcopy_def add_prefix_states_def
      unit_add_prefix_states_def add_prefix_def example_unit_def example_store_def
      prefix_parameters_content_def unit_add_prefix_parameters_def unit_get_parameters_def)

lemma init_content_shared: "init_content True i hs c st = (c @ map unit_copy hs, st)"
  by (induction hs arbitrary: c) simp_all

lemma next_free_prefix_parameters_content [simp]:
  "next_free (prefix_parameters_content i c st) = next_free st"
  unfolding prefix_parameters_content_def
  by (induction c arbitrary: st) (simp_all add: unit_add_prefix_parameters_def)

lemma init_content_keeps:
  "init_content False i hs c st = (c', st') \<Longrightarrow> take (length c) c' = c"
proof (induction hs arbitrary: c st)
  case Nil
  then show ?case by simp
next
  case (Cons h hs)
  let ?h = "h\<lparr>pars := next_free st\<rparr>"
  from Cons.prems have "init_content False i hs (c @ [?h])
      (prefix_parameters_content i (c @ [?h])
         (st\<lparr>heap := (heap st)(next_free st := heap st (pars h)),
             next_free := Suc (next_free st)\<rparr>)) = (c', st')"
    by (simp add: unit_deepcopy_def)
  from Cons.IH [OF this] have "take (Suc (length c)) c' = c @ [?h]"
    by simp
  then have "take (length c) (take (Suc (length c)) c') = take (length c) (c @ [?h])"
    by simp
  then show ?case by (simp add: min_def)
qed

lemma init_content_exclusive:
  "init_content False i hs c st = (c', st') \<Longrightarrow>
   length c' = length c + length hs
   \<and> (\<forall>k<length hs. pars (c' ! (length c + k)) = next_free st + k)
   \<and> next_free st' = next_free st + length hs"
proof (induction hs arbitrary: c st)
  case Nil
  then show ?case by simp
next
  case (Cons h hs)
  let ?h = "h\<lparr>pars := next_free st\<rparr>"
  let ?st = "prefix_parameters_content i (c @ [?h])
               (st\<lparr>heap := (heap st)(next_free st := heap st (pars h)),
                   next_free := Suc (next_free st)\<rparr>)"
  from Cons.prems have run: "init_content False i hs (c @ [?h]) ?st = (c', st')"
    by (simp add: unit_deepcopy_def)
  from Cons.IH [OF run] have ih: "length c' = length (c @ [?h]) + length hs"
    "\<forall>k<length hs. pars (c' ! (length (c @ [?h]) + k)) = next_free ?st + k"
    "next_free st' = next_free ?st + length hs"
    by simp_all
  have keep: "c' ! length c = ?h"
  proof -
    from init_content_keeps [OF run] have "take (Suc (length c)) c' = c @ [?h]" by simp
    then have "take (Suc (length c)) c' ! length c = (c @ [?h]) ! length c" by simp
    then show ?thesis by simp
  qed
  show ?case
  proof (intro conjI allI impI)
    show "length c' = length c + length (h # hs)" using ih(1) by simp
    show "next_free st' = next_free st + length (h # hs)" using ih(3) by simp
    fix k assume k: "k < length (h # hs)"
    show "pars (c' ! (length c + k)) = next_free st + k"
    proof (cases k)
      case 0
      then show ?thesis using keep by simp
    next
      case (Suc k')
      with k have "k' < length hs" by simp
      from ih(2) [rule_format, OF this] show ?thesis using Suc by simp
    qed
  qed
qed

lemma Node_init_shared:
  "Node_init st us ws a i True = (n, st') \<Longrightarrow>
   st' = st \<and> content n = map (unit_add_prefix_states i) us"
  by (auto simp: Node_init_def init_content_shared add_prefix_states_def unit_copy_def)

lemma pars_unit_add_prefix_states [simp]: "pars (unit_add_prefix_states i h) = pars h"
  by (simp add: unit_add_prefix_states_def)

lemma Node_init_exclusive:
  assumes "Node_init st us ws a i False = (n, st')"
  shows "length (content n) = length us"
    and "\<forall>k<length us. pars (content n ! k) = next_free st + k"
    and "next_free st' = next_free st + length us"
proof -
  obtain c s where run: "init_content False i us [] st = (c, s)"
    by (cases "init_content False i us [] st")
  from assms run have n: "content n = map (unit_add_prefix_states i) c" "st' = s"
    by (auto simp: Node_init_def add_prefix_states_def)
  from init_content_exclusive [OF run] have c: "length c = length us"
    "\<forall>k<length us. pars (c ! k) = next_free st + k" "next_free s = next_free st + length us"
    by simp_all
  show "length (content n) = length us" using n c by simp
  show "\<forall>k<length us. pars (content n ! k) = next_free st + k" using n c by simp
  show "next_free st' = next_free st + length us" using n c by simp
qed

text \<open>
  Claim C5. Two Nodes are constructed one after the other over the same Units \<open>us\<close>,
  whose parameter dictionaries are allocated in the store. With shared parameters,
  the \<open>k\<close>-th Unit of each Node holds the parameter dictionary of the \<open>k\<close>-th Unit
  supplied, so that a parameter written through the Unit of the first Node is read
  through the Unit of the second. With exclusive parameters, the dictionary of a Unit
  of the first Node is neither the dictionary of a Unit of the second Node nor the one
  of a Unit supplied, and what is read through them is unchanged by the write.
\<close>

theorem shared_parameters_alias_or_duplicate:
  assumes "Node_init st0 us ws1 a1 i1 sh = (n1, st1)"
    and "Node_init st1 us ws2 a2 i2 sh = (n2, st2)"
    and "k < length us"
    and "\<forall>h\<in>set us. pars h < next_free st0"
  shows "(sh \<longrightarrow>
            pars (content n1 ! k) = pars (us ! k) \<and> pars (content n2 ! k) = pars (us ! k)
          \<and> unit_get_parameters (unit_set_parameter key v (content n1 ! k) st2) (content n2 ! k)
              = AList.update key v (unit_get_parameters st2 (content n2 ! k))
          \<and> map_of (unit_get_parameters (unit_set_parameter key v (content n1 ! k) st2)
                      (content n2 ! k)) key = Some v)
       \<and> (\<not> sh \<longrightarrow>
            (\<forall>j<length us.
               pars (content n1 ! k) \<noteq> pars (content n2 ! j)
             \<and> pars (content n1 ! k) \<noteq> pars (us ! j)
             \<and> unit_get_parameters (unit_set_parameter key v (content n1 ! k) st2) (content n2 ! j)
                 = unit_get_parameters st2 (content n2 ! j)
             \<and> unit_get_parameters (unit_set_parameter key v (content n1 ! k) st2) (us ! j)
                 = unit_get_parameters st2 (us ! j)))"
proof (cases sh)
  case True
  from Node_init_shared [of st0 us ws1 a1 i1 n1 st1] assms(1) True
  have c1: "content n1 = map (unit_add_prefix_states i1) us" by simp
  from Node_init_shared [of st1 us ws2 a2 i2 n2 st2] assms(2) True
  have c2: "content n2 = map (unit_add_prefix_states i2) us" by simp
  from c1 c2 True assms(3) show ?thesis
    by (simp add: unit_get_parameters_def unit_set_parameter_def update_conv')
next
  case False
  from Node_init_exclusive [of st0 us ws1 a1 i1 n1 st1] assms(1) False have 1:
    "\<forall>k<length us. pars (content n1 ! k) = next_free st0 + k"
    "next_free st1 = next_free st0 + length us"
    by simp_all
  from Node_init_exclusive [of st1 us ws2 a2 i2 n2 st2] assms(2) False have 2:
    "\<forall>k<length us. pars (content n2 ! k) = next_free st1 + k"
    by simp_all
  have "\<forall>j<length us. pars (content n1 ! k) \<noteq> pars (content n2 ! j)
             \<and> pars (content n1 ! k) \<noteq> pars (us ! j)"
  proof (intro allI impI)
    fix j assume j: "j < length us"
    then have "pars (us ! j) < next_free st0" using assms(4) by simp
    then show "pars (content n1 ! k) \<noteq> pars (content n2 ! j)
             \<and> pars (content n1 ! k) \<noteq> pars (us ! j)"
      using 1 2 assms(3) j by simp
  qed
  with False show ?thesis
    by (auto simp: unit_get_parameters_def unit_set_parameter_def)
qed


text \<open>
  Two Nodes \<open>n1\<close> and \<open>n2\<close> over the Units \<open>A\<close> and \<open>B\<close>, whose parameter \<open>k\<close> is 1. Shared:
  writing 7 through \<open>n1\<close> shows in \<open>n2\<close>. Exclusive: writing through \<open>n1\<close> leaves the
  parameter of \<open>n2\<close> as it was.
\<close>

theorem shared_parameters_alias_or_duplicate_witness:
  "unit_get_parameters
     (unit_set_parameter ''k'' 7
        (content (fst (Node_init example_store [example_unit ''A'' 0 [2], example_unit ''B'' 1 [3]]
           [WFloat 0.5, WFloat 0.5] 1 ''n1'' True)) ! 1)
        example_store)
     (content (fst (Node_init example_store [example_unit ''A'' 0 [2], example_unit ''B'' 1 [3]]
           [WFloat 1, WFloat 1] 2 ''n2'' True)) ! 1) = [(''k'', 7)]
   \<and> unit_get_parameters
     (unit_set_parameter ''n1_k'' 7
        (content (fst (Node_init example_store [example_unit ''A'' 0 [2], example_unit ''B'' 1 [3]]
           [WFloat 0.5, WFloat 0.5] 1 ''n1'' False)) ! 1)
        (snd (Node_init
           (snd (Node_init example_store [example_unit ''A'' 0 [2], example_unit ''B'' 1 [3]]
              [WFloat 0.5, WFloat 0.5] 1 ''n1'' False))
           [example_unit ''A'' 0 [2], example_unit ''B'' 1 [3]] [WFloat 1, WFloat 1] 2 ''n2'' False)))
     (content (fst (Node_init
           (snd (Node_init example_store [example_unit ''A'' 0 [2], example_unit ''B'' 1 [3]]
              [WFloat 0.5, WFloat 0.5] 1 ''n1'' False))
           [example_unit ''A'' 0 [2], example_unit ''B'' 1 [3]] [WFloat 1, WFloat 1] 2 ''n2'' False)) ! 1)
     = [(''n2_k'', 1)]"
  using shared_parameters_alias_or_duplicate [of example_store
      "[example_unit ''A'' 0 [2], example_unit ''B'' 1 [3]]" "[WFloat 0.5, WFloat 0.5]" 1 "''n1''" True
      "fst (Node_init example_store [example_unit ''A'' 0 [2], example_unit ''B'' 1 [3]]
           [WFloat 0.5, WFloat 0.5] 1 ''n1'' True)"
      example_store "[WFloat 1, WFloat 1]" 2 "''n2''"
      "fst (Node_init example_store [example_unit ''A'' 0 [2], example_unit ''B'' 1 [3]]
           [WFloat 1, WFloat 1] 2 ''n2'' True)"
      example_store 1 "''k''" 7]
    shared_parameters_alias_or_duplicate [of example_store
      "[example_unit ''A'' 0 [2], example_unit ''B'' 1 [3]]" "[WFloat 0.5, WFloat 0.5]" 1 "''n1''" False
      "fst (Node_init example_store [example_unit ''A'' 0 [2], example_unit ''B'' 1 [3]]
           [WFloat 0.5, WFloat 0.5] 1 ''n1'' False)"
      "snd (Node_init example_store [example_unit ''A'' 0 [2], example_unit ''B'' 1 [3]]
           [WFloat 0.5, WFloat 0.5] 1 ''n1'' False)"
      "[WFloat 1, WFloat 1]" 2 "''n2''"
      "fst (Node_init
           (snd (Node_init example_store [example_unit ''A'' 0 [2], example_unit ''B'' 1 [3]]
              [WFloat 0.5, WFloat 0.5] 1 ''n1'' False))
           [example_unit ''A'' 0 [2], example_unit ''B'' 1 [3]] [WFloat 1, WFloat 1] 2 ''n2'' False)"
      "snd (Node_init
           (snd (Node_init example_store [example_unit ''A'' 0 [2], example_unit ''B'' 1 [3]]
              [WFloat 0.5, WFloat 0.5] 1 ''n1'' False))
           [example_unit ''A'' 0 [2], example_unit ''B'' 1 [3]] [WFloat 1, WFloat 1] 2 ''n2'' False)"
      1 "''n1_k''" 7]
  by (simp add: Node_init_def unit_copy_def unit_deepcopy_def add_prefix_states_def
      unit_add_prefix_states_def add_prefix_def example_unit_def example_store_def
      prefix_parameters_content_def unit_add_prefix_parameters_def unit_get_parameters_def
      nth_Cons' less_Suc_eq numeral_2_eq_2)

subsection \<open>Addressing\<close>

lemma find_attribute_from_name_eq:
  "find_content_from_name n i = Inr k \<Longrightarrow>
   find_attribute_from_name n i = Inr (k, length (split_on CHR ''_'' i) = 3)"
  by (simp add: find_attribute_from_name_def Let_def)

text \<open>
  Claim C6. The id selects the Unit at index \<open>k\<close>. If the id splits into exactly three
  segments, \<open>get_internal\<close> and \<open>call_internal\<close> hand the whole id and the name of the
  attribute or method to the \<open>get_internal\<close> or \<open>call_internal\<close> of that Unit. Otherwise
  \<open>get_internal\<close> returns the attribute of that name of the Unit itself, and
  \<open>call_internal\<close> calls the method of that name of the Unit itself with the keyword
  arguments supplied: a value the method returns is returned, an error it raises is
  raised, an AttributeError under the message of the Node.
\<close>

theorem addressing_delegates_or_resolves:
  assumes "find_content_from_name n i = Inr k" and "k < length (content n)"
  shows "(length (split_on CHR ''_'' i) = 3 \<longrightarrow>
            get_internal n i attribute = u_get_internal (content n ! k) i attribute
          \<and> call_internal n i method kw = u_call_internal (content n ! k) i method kw)
       \<and> (length (split_on CHR ''_'' i) \<noteq> 3 \<longrightarrow>
            (\<forall>m. unit_getattr (content n ! k) attribute = Some m \<longrightarrow>
                 get_internal n i attribute = Inr m)
          \<and> (\<forall>shown f. unit_getattr (content n ! k) method = Some (Method shown f) \<longrightarrow>
                 call_internal n i method kw =
                   (case f kw of
                      Inl (AttributeError msg) \<Rightarrow>
                        Inl (AttributeError
                               (error_message n @ ''the method '' @ shown @ '' does not exist.''))
                    | Inl e \<Rightarrow> Inl e
                    | Inr v \<Rightarrow> Inr v)))"
  using assms
  by (simp add: get_internal_def call_internal_def find_attribute_from_name_eq content_at_def)

text \<open>
  The id \<open>B_e1_p\<close> has three segments and goes to the Unit \<open>B\<close>; the ids \<open>B\<close> and \<open>B_e1\<close>
  resolve an attribute and a method of \<open>B\<close> itself.
\<close>

theorem addressing_delegates_or_resolves_witness:
  "get_internal (fst (Node_init example_store [example_unit ''A'' 0 [2], example_unit ''B'' 1 [3]]
       [WFloat 0.25, WFloat 0.75] 1 ''n'' True)) ''B_e1_p'' ''x'' = Inr (Data (PStr ''B_e1_p.x''))
   \<and> call_internal (fst (Node_init example_store [example_unit ''A'' 0 [2], example_unit ''B'' 1 [3]]
       [WFloat 0.25, WFloat 0.75] 1 ''n'' True)) ''B_e1_p'' ''f'' [] = Inr (PStr ''B_e1_p.f'')
   \<and> get_internal (fst (Node_init example_store [example_unit ''A'' 0 [2], example_unit ''B'' 1 [3]]
       [WFloat 0.25, WFloat 0.75] 1 ''n'' True)) ''B'' ''id'' = Inr (Data (PStr ''B''))
   \<and> call_internal (fst (Node_init example_store [example_unit ''A'' 0 [2], example_unit ''B'' 1 [3]]
       [WFloat 0.25, WFloat 0.75] 1 ''n'' True)) ''B_e1'' ''get_parameters_name'' [] = Inr (PStr ''k'')"
  using addressing_delegates_or_resolves [of
      "fst (Node_init example_store [example_unit ''A'' 0 [2], example_unit ''B'' 1 [3]]
       [WFloat 0.25, WFloat 0.75] 1 ''n'' True)" "''B_e1_p''" 1 "''x''" "''f''" "[]"]
    addressing_delegates_or_resolves [of
      "fst (Node_init example_store [example_unit ''A'' 0 [2], example_unit ''B'' 1 [3]]
       [WFloat 0.25, WFloat 0.75] 1 ''n'' True)" "''B''" 1 "''id''" "''f''" "[]"]
    addressing_delegates_or_resolves [of
      "fst (Node_init example_store [example_unit ''A'' 0 [2], example_unit ''B'' 1 [3]]
       [WFloat 0.25, WFloat 0.75] 1 ''n'' True)" "''B_e1''" 1 "''id''" "''get_parameters_name''" "[]"]
  by (simp add: Node_init_def unit_copy_def add_prefix_states_def
      unit_add_prefix_states_def add_prefix_def example_unit_def find_content_from_name_def
      unit_getattr_def)

text \<open>
  Claim C7 fails on the code. The Unit \<open>A\<close> has the method \<open>reset_states\<close>, which raises
  AttributeError while it runs; \<open>call_internal\<close> reports that the method does not
  exist, and the message shows the bound method where the requested name should be.
\<close>

theorem call_internal_existing_method_reported_absent:
  "unit_getattr (content (fst (Node_init example_store [example_unit ''A'' 0 [2]]
       [WFloat 1] 1 ''n'' True)) ! 0) ''reset_states''
     = Some (Method ''<bound method Unit.reset_states>'' (\<lambda>kw. Inl (AttributeError ''_init_states'')))
   \<and> call_internal (fst (Node_init example_store [example_unit ''A'' 0 [2]]
       [WFloat 1] 1 ''n'' True)) ''A'' ''reset_states'' []
     = Inl (AttributeError ''module : superflexPy, Node : n, Error message : the method <bound method Unit.reset_states> does not exist.'')"
  by (simp add: Node_init_def unit_copy_def add_prefix_states_def
      unit_add_prefix_states_def add_prefix_def example_unit_def find_content_from_name_def
      unit_getattr_def call_internal_def find_attribute_from_name_def content_at_def
      make_error_message_def)

text \<open>
  Claim C10. When \<open>call_internal\<close> resolves a method that exists on the selected Unit
  and the method raises AttributeError while it runs, the Node raises its own
  AttributeError: the message names the id of the Node and says that the method does
  not exist. The method appears in it as the text that \<open>format\<close> prints for the
  callable, since the name \<open>method\<close> was rebound to it. The original error is lost.
\<close>

theorem call_internal_masks_attribute_error:
  assumes "find_content_from_name n i = Inr k" and "k < length (content n)"
    and "length (split_on CHR ''_'' i) \<noteq> 3"
    and "unit_getattr (content n ! k) method = Some (Method shown f)"
    and "f kw = Inl (AttributeError msg)"
    and "error_message n = make_error_message (nid n)"
  shows "call_internal n i method kw =
           Inl (AttributeError (''module : superflexPy, Node : '' @ nid n @
                  '', Error message : the method '' @ shown @ '' does not exist.''))"
  using assms
  by (simp add: call_internal_def find_attribute_from_name_eq content_at_def
      make_error_message_def)

theorem call_internal_masks_attribute_error_witness:
  "call_internal (fst (Node_init example_store [example_unit ''A'' 0 [2], example_unit ''B'' 1 [3]]
       [WFloat 0.25, WFloat 0.75] 1 ''m'' False)) ''B'' ''reset_states'' [(''x'', PInt 1)]
     = Inl (AttributeError ''module : superflexPy, Node : m, Error message : the method <bound method Unit.reset_states> does not exist.'')"
  using call_internal_masks_attribute_error [of
      "fst (Node_init example_store [example_unit ''A'' 0 [2], example_unit ''B'' 1 [3]]
       [WFloat 0.25, WFloat 0.75] 1 ''m'' False)" "''B''" 1 "''reset_states''"
      "''<bound method Unit.reset_states>''" "\<lambda>kw. Inl (AttributeError ''_init_states'')"
      "[(''x'', PInt 1)]" "''_init_states''"]
  by (simp add: Node_init_def unit_deepcopy_def add_prefix_states_def
      unit_add_prefix_states_def add_prefix_def example_unit_def find_content_from_name_def
      unit_getattr_def prefix_parameters_content_def unit_add_prefix_parameters_def
      make_error_message_def)

subsection \<open>Copying\<close>

text \<open>
  Claim C8. \<open>copy\<close> and \<open>deepcopy\<close> of a Node always raise AttributeError and never
  return a Node; the message is the error prefix of the Node followed by
  \<open>A Node cannot be copied\<close>, and for a Node constructed with the id \<open>i\<close> the prefix
  holds \<open>i\<close>.
\<close>

theorem node_copy_always_raises:
  "node_copy n = Inl (AttributeError (error_message n @ ''A Node cannot be copied''))
   \<and> node_deepcopy n memo = Inl (AttributeError (error_message n @ ''A Node cannot be copied''))
   \<and> node_copy (fst (Node_init st us ws a i sh)) =
        Inl (AttributeError (''module : superflexPy, Node : '' @ i @ '', Error message : A Node cannot be copied''))
   \<and> node_deepcopy (fst (Node_init st us ws a i sh)) memo =
        Inl (AttributeError (''module : superflexPy, Node : '' @ i @ '', Error message : A Node cannot be copied''))"
  by (simp add: node_copy_def node_deepcopy_def Node_init_error_message make_error_message_def)

end
